theory Spec2Isabelle
  imports Main
begin

section \<open>Data model of \<open>ModelReviews.tsx\<close>\<close>

text \<open>
  The component \<open>ReviewItem\<close> reads a session (\<open>useSession().data\<close>, which is absent for
  an anonymous visitor), the router's current path and one review. Only the fields the
  component's logic reads are kept; ids are numbers.
\<close>

record SessionUser =
  su_id :: int

record Session =
  session_user :: "SessionUser option"

record Image =
  image_id :: int
  image_url :: string
  image_name :: "string option"

record ImageOnReview =
  ior_image :: Image

record ReviewUser =
  ru_id :: int

record Review =
  review_id :: int
  review_modelId :: int
  review_user :: ReviewUser
  review_text :: "string option"
  review_nsfw :: bool
  imagesOnReviews :: "ImageOnReview list"

text \<open>The two members of the enumeration \<open>ReportReason\<close> that the component uses.\<close>

datatype ReportReason = NSFW | TOSViolation

section \<open>Ownership and the actions menu\<close>

text \<open>
  \<open>const isOwner = session?.user?.id === review.user.id\<close>: optional chaining gives
  \<open>undefined\<close> when the session or its user is absent, and \<open>undefined\<close> is never strictly
  equal to a number.
\<close>

definition isOwner :: "Session option \<Rightarrow> Review \<Rightarrow> bool" where
  "isOwner session review =
     (case session of
        None \<Rightarrow> False
      | Some s \<Rightarrow>
          (case session_user s of
             None \<Rightarrow> False
           | Some u \<Rightarrow> su_id u = ru_id (review_user review)))"

text \<open>What a menu item does when clicked.\<close>

datatype menu_action = HandleDeleteReview | HandleReportReview ReportReason

record MenuItem =
  item_label :: string
  item_color :: "string option"
  item_onClick :: menu_action

text \<open>
  The children of \<open>Menu.Dropdown\<close>: the delete item under \<open>isOwner\<close>, the two report
  items under \<open>!session || !isOwner\<close>.
\<close>

definition menu_dropdown :: "Session option \<Rightarrow> Review \<Rightarrow> MenuItem list" where
  "menu_dropdown session review =
     (if isOwner session review
      then [\<lparr>item_label = ''Delete review'', item_color = Some ''red'',
              item_onClick = HandleDeleteReview\<rparr>]
      else [])
     @
     (if session = None \<or> \<not> isOwner session review
      then [\<lparr>item_label = ''Report as NSFW'', item_color = None,
              item_onClick = HandleReportReview NSFW\<rparr>,
            \<lparr>item_label = ''Report as Terms Violation'', item_color = None,
              item_onClick = HandleReportReview TOSViolation\<rparr>]
      else [])"

text \<open>The capabilities a rendered menu offers are the actions of its items.\<close>

definition offered :: "Session option \<Rightarrow> Review \<Rightarrow> menu_action list" where
  "offered session review = map item_onClick (menu_dropdown session review)"

section \<open>Effects on the collaborators\<close>

text \<open>
  The handlers do nothing but call collaborators: the query cache, the modal manager, the
  notification channel, the router and the remote procedures. A handler is modelled by the
  list of calls it makes, in the order it makes them, each with its arguments.
\<close>

text \<open>The argument of \<open>showNotification\<close>; \<open>autoClose: false\<close> is \<open>None\<close>.\<close>

record NotificationProps =
  n_id :: string
  n_loading :: bool
  n_disallowClose :: bool
  n_autoClose :: "nat option"
  n_message :: string

text \<open>The argument of \<open>showSuccessNotification\<close>.\<close>

record SuccessProps =
  s_title :: string
  s_message :: string

text \<open>
  The argument of \<open>showErrorNotification\<close>: \<open>error\<close> is \<open>new Error(error.message)\<close>, kept
  as its message; \<open>reason\<close> is optional.
\<close>

record ErrorProps =
  e_error :: string
  e_title :: string
  e_reason :: "string option"

text \<open>A callback stored in a modal: \<open>() => deleteMutation.mutate({ id })\<close>.\<close>

datatype callback = DeleteMutate int

text \<open>
  The argument of \<open>openConfirmModal\<close>. The object literal is evaluated when the handler
  runs, so \<open>loading\<close> is a boolean, the value \<open>deleteMutation.isLoading\<close> has at that
  moment. No \<open>onCancel\<close> is supplied.
\<close>

record ConfirmModalProps =
  cm_title :: string
  cm_children :: string
  cm_centered :: bool
  cm_confirm_label :: string
  cm_cancel_label :: string
  cm_confirm_color :: string
  cm_confirm_loading :: bool
  cm_closeOnConfirm :: bool
  cm_onConfirm :: callback
  cm_onCancel :: "callback option"

datatype effect =
    Invalidate int
  | CloseAllModals
  | OpenConfirmModal ConfirmModalProps
  | ShowNotification NotificationProps
  | HideNotification string
  | ShowSuccessNotification SuccessProps
  | ShowErrorNotification ErrorProps
  | RouterPush string
  | DeleteRequest int
  | ReportRequest int ReportReason

section \<open>The mutation lifecycle\<close>

text \<open>
  \<open>useMutation\<close> takes the four optional callbacks. \<open>mutate\<close> runs \<open>onMutate\<close>, sends
  the request, and when the request settles runs \<open>onSuccess\<close> or \<open>onError\<close> (with the
  error), then \<open>onSettled\<close>. The outcome of the request is the environment's choice.
\<close>

datatype outcome = Succeeded | Failed string

record mutation_options =
  onMutate :: "effect list"
  onSuccess :: "effect list"
  onError :: "string \<Rightarrow> effect list"
  onSettled :: "effect list"

definition mutate_start :: "mutation_options \<Rightarrow> effect \<Rightarrow> effect list" where
  "mutate_start opts request = onMutate opts @ [request]"

definition mutate_settle :: "mutation_options \<Rightarrow> outcome \<Rightarrow> effect list" where
  "mutate_settle opts out =
     (case out of Succeeded \<Rightarrow> onSuccess opts | Failed message \<Rightarrow> onError opts message)
     @ onSettled opts"

definition mutate :: "mutation_options \<Rightarrow> effect \<Rightarrow> outcome \<Rightarrow> effect list" where
  "mutate opts request out = mutate_start opts request @ mutate_settle opts out"

section \<open>Delete\<close>

definition deleteMutation :: "Review \<Rightarrow> mutation_options" where
  "deleteMutation review =
     \<lparr>onMutate = [],
      onSuccess = [Invalidate (review_modelId review), CloseAllModals],
      onError = (\<lambda>message.
        [ShowErrorNotification
           \<lparr>e_error = message, e_title = ''Could not delete review'', e_reason = None\<rparr>]),
      onSettled = []\<rparr>"

text \<open>
  \<open>handleDeleteReview\<close> belongs to one render of the component; \<open>isLoading\<close> is
  \<open>deleteMutation.isLoading\<close> of that render.
\<close>

definition handleDeleteReview :: "bool \<Rightarrow> Review \<Rightarrow> effect list" where
  "handleDeleteReview isLoading review =
     [OpenConfirmModal
        \<lparr>cm_title = ''Delete Review'',
         cm_children = ''Are you sure you want to delete this model? This action is destructive and cannot be reverted.'',
         cm_centered = True,
         cm_confirm_label = ''Delete Review'',
         cm_cancel_label = ''No, don't delete it'',
         cm_confirm_color = ''red'',
         cm_confirm_loading = isLoading,
         cm_closeOnConfirm = False,
         cm_onConfirm = DeleteMutate (review_id review),
         cm_onCancel = None\<rparr>]"

text \<open>Running the stored callback: \<open>deleteMutation.mutate({ id: review.id })\<close>.\<close>

fun run_callback :: "Review \<Rightarrow> callback \<Rightarrow> outcome \<Rightarrow> effect list" where
  "run_callback review (DeleteMutate i) out = mutate (deleteMutation review) (DeleteRequest i) out"

section \<open>Report\<close>

definition reportMutation :: "Review \<Rightarrow> mutation_options" where
  "reportMutation review =
     \<lparr>onMutate =
        [ShowNotification
           \<lparr>n_id = ''sending-review-report'', n_loading = True, n_disallowClose = True,
            n_autoClose = None, n_message = ''Sending report...''\<rparr>],
      onSuccess =
        [Invalidate (review_modelId review),
         ShowSuccessNotification
           \<lparr>s_title = ''Review reported'', s_message = ''Your request has been received''\<rparr>],
      onError = (\<lambda>message.
        [ShowErrorNotification
           \<lparr>e_error = message, e_title = ''Unable to send report'',
            e_reason = Some ''An unexpected error occurred, please try again''\<rparr>]),
      onSettled = [HideNotification ''sending-review-report'']\<rparr>"

text \<open>
  \<open>handleReportReview\<close>: without a session it returns \<open>router.push\<close> of the login url
  built from \<open>router.asPath\<close>; otherwise it calls \<open>reportMutation.mutate\<close>.
\<close>

definition handleReportReview ::
  "Session option \<Rightarrow> string \<Rightarrow> Review \<Rightarrow> ReportReason \<Rightarrow> outcome \<Rightarrow> effect list" where
  "handleReportReview session asPath review reason out =
     (case session of
        None \<Rightarrow> [RouterPush (''/login?returnUrl='' @ asPath)]
      | Some s \<Rightarrow>
          mutate (reportMutation review) (ReportRequest (review_id review) reason) out)"

section \<open>The collaborators' state\<close>

text \<open>
  What the calls do to the interface: the modal manager holds the open modals (those of
  this component and any other), the notification channel the visible notifications, the
  query cache the model ids whose review collection has been invalidated. The state also
  keeps the log of all calls and whether the delete mutation is in flight
  (\<open>deleteMutation.isLoading\<close>).
\<close>

datatype modal = ConfirmModal ConfirmModalProps | OtherModal string

datatype notification =
    LoadingNote NotificationProps
  | SuccessNote SuccessProps
  | ErrorNote ErrorProps

record world =
  modals :: "modal list"
  notifications :: "notification list"
  stale :: "int list"
  delete_isLoading :: bool
  log :: "effect list"

text \<open>
  Modelled from the spec: \<open>showSuccessNotification\<close> and \<open>showErrorNotification\<close> of
  \<open>~/utils/notifications\<close> are not part of the source at hand. The spec's notification
  channel shows a message of kind success or error; the helpers are given no key by the
  component, so their notifications carry none.
\<close>

fun note_key :: "notification \<Rightarrow> string option" where
  "note_key (LoadingNote p) = Some (n_id p)"
| "note_key (SuccessNote p) = None"
| "note_key (ErrorNote p) = None"

text \<open>
  \<open>showNotification\<close> with an id that is already visible adds nothing;
  \<open>hideNotification\<close> removes the notification with that id; \<open>closeAllModals\<close> empties
  the modal manager. Requests and navigation leave the interface state as it is.
\<close>

fun apply_effect :: "effect \<Rightarrow> world \<Rightarrow> world" where
  "apply_effect (Invalidate m) w = w\<lparr>stale := stale w @ [m]\<rparr>"
| "apply_effect CloseAllModals w = w\<lparr>modals := []\<rparr>"
| "apply_effect (OpenConfirmModal p) w = w\<lparr>modals := modals w @ [ConfirmModal p]\<rparr>"
| "apply_effect (ShowNotification p) w =
     (if Some (n_id p) \<in> set (map note_key (notifications w)) then w
      else w\<lparr>notifications := notifications w @ [LoadingNote p]\<rparr>)"
| "apply_effect (HideNotification k) w =
     w\<lparr>notifications := filter (\<lambda>n. note_key n \<noteq> Some k) (notifications w)\<rparr>"
| "apply_effect (ShowSuccessNotification p) w =
     w\<lparr>notifications := notifications w @ [SuccessNote p]\<rparr>"
| "apply_effect (ShowErrorNotification p) w =
     w\<lparr>notifications := notifications w @ [ErrorNote p]\<rparr>"
| "apply_effect (RouterPush url) w = w"
| "apply_effect (DeleteRequest i) w = w"
| "apply_effect (ReportRequest i reason) w = w"

fun run :: "effect list \<Rightarrow> world \<Rightarrow> world" where
  "run [] w = w"
| "run (e # es) w = run es (apply_effect e (w\<lparr>log := log w @ [e]\<rparr>))"

section \<open>The confirmation gate\<close>

text \<open>
  Clicking the menu item runs \<open>handleDeleteReview\<close> of the current render, which reads
  \<open>deleteMutation.isLoading\<close> as it is then.
\<close>

definition click_delete :: "Review \<Rightarrow> world \<Rightarrow> world" where
  "click_delete review w = run (handleDeleteReview (delete_isLoading w) review) w"

text \<open>
  The confirm control of the topmost modal calls \<open>onConfirm\<close> and then closes the modal
  if \<open>closeOnConfirm\<close> holds. The callback starts the mutation, which is in flight from
  then on.
\<close>

definition click_confirm :: "Review \<Rightarrow> world \<Rightarrow> world" where
  "click_confirm review w =
     (case rev (modals w) of
        ConfirmModal p # below \<Rightarrow>
          (case cm_onConfirm p of
             DeleteMutate i \<Rightarrow>
               let w1 = run (mutate_start (deleteMutation review) (DeleteRequest i))
                          (w\<lparr>delete_isLoading := True\<rparr>)
               in if cm_closeOnConfirm p then w1\<lparr>modals := rev below\<rparr> else w1)
      | _ \<Rightarrow> w)"

text \<open>
  The cancel control calls \<open>onCancel\<close> if there is one and closes the modal.
\<close>

definition click_cancel :: "Review \<Rightarrow> world \<Rightarrow> world" where
  "click_cancel review w =
     (case rev (modals w) of
        ConfirmModal p # below \<Rightarrow>
          (case cm_onCancel p of
             None \<Rightarrow> w\<lparr>modals := rev below\<rparr>
           | Some (DeleteMutate i) \<Rightarrow>
               (run (mutate_start (deleteMutation review) (DeleteRequest i))
                  (w\<lparr>delete_isLoading := True\<rparr>))\<lparr>modals := rev below\<rparr>)
      | _ \<Rightarrow> w)"

text \<open>The delete request settles: the mutation is no longer in flight, its callbacks run.\<close>

definition settle_delete :: "Review \<Rightarrow> outcome \<Rightarrow> world \<Rightarrow> world" where
  "settle_delete review out w =
     run (mutate_settle (deleteMutation review) out) (w\<lparr>delete_isLoading := False\<rparr>)"

text \<open>The busy flag the open gate shows on its confirm control.\<close>

fun confirm_busy :: "modal \<Rightarrow> bool" where
  "confirm_busy (ConfirmModal p) = cm_confirm_loading p"
| "confirm_busy (OtherModal name) = False"

section \<open>Rendering\<close>













text \<open>
  \<open>ModelReviews\<close>: the loading overlay, and either the grid over the items (each rendered
  by \<open>ReviewItem\<close>) or the placeholder with its two lines of text.
\<close>

datatype reviews_body =
    MasonryGrid "Review list"
  | Placeholder string string

record ModelReviewsView =
  overlay_visible :: bool
  body :: reviews_body

definition ModelReviews :: "Review list \<Rightarrow> bool \<Rightarrow> ModelReviewsView" where
  "ModelReviews items loading =
     \<lparr>overlay_visible = loading,
      body =
        (if length items > 0 then MasonryGrid items
         else Placeholder ''There are no reviews for this model yet.''
                ''Be the first to let the people know about this model by leaving your review.'')\<rparr>"

section \<open>Example scenario\<close>

text \<open>
  The review of the spec's scenarios (id 7, no images, text "Great"), its author as actor 1
  and another user as actor 2, and an interface in which nothing is open or in flight.
\<close>

definition example_review :: Review where
  "example_review =
     \<lparr>review_id = 7, review_modelId = 3, review_user = \<lparr>ru_id = 1\<rparr>,
      review_text = Some ''Great'', review_nsfw = False, imagesOnReviews = []\<rparr>"

definition owner_session :: "Session option" where
  "owner_session = Some \<lparr>session_user = Some \<lparr>su_id = 1\<rparr>\<rparr>"

definition other_session :: "Session option" where
  "other_session = Some \<lparr>session_user = Some \<lparr>su_id = 2\<rparr>\<rparr>"

definition idle_world :: world where
  "idle_world =
     \<lparr>modals = [], notifications = [], stale = [], delete_isLoading = False, log = []\<rparr>"





section \<open>Reading a trace\<close>

text \<open>The calls that report the terminal outcome of a mutation to the user.\<close>

fun is_terminal_note :: "effect \<Rightarrow> bool" where
  "is_terminal_note (ShowSuccessNotification p) = True"
| "is_terminal_note (ShowErrorNotification p) = True"
| "is_terminal_note e = False"

fun is_success_note :: "effect \<Rightarrow> bool" where
  "is_success_note (ShowSuccessNotification p) = True"
| "is_success_note e = False"

text \<open>The calls that show or hide a notification under a given key.\<close>

fun touches_key :: "string \<Rightarrow> effect \<Rightarrow> bool" where
  "touches_key k (ShowNotification p) = (n_id p = k)"
| "touches_key k (HideNotification k') = (k' = k)"
| "touches_key k e = False"

fun is_invalidate :: "effect \<Rightarrow> bool" where
  "is_invalidate (Invalidate m) = True"
| "is_invalidate e = False"

fun is_request :: "effect \<Rightarrow> bool" where
  "is_request (DeleteRequest i) = True"
| "is_request (ReportRequest i reason) = True"
| "is_request e = False"

text \<open>The same trace with another error message in the error notifications.\<close>

fun with_error_message :: "string \<Rightarrow> effect \<Rightarrow> effect" where
  "with_error_message m (ShowErrorNotification p) = ShowErrorNotification (p\<lparr>e_error := m\<rparr>)"
| "with_error_message m e = e"

section \<open>Theorems\<close>

lemma isOwner_iff:
  "isOwner session review =
     (\<exists>s u. session = Some s \<and> session_user s = Some u \<and> su_id u = ru_id (review_user review))"
  by (auto simp: isOwner_def split: option.splits)

lemma offered_cases:
  "offered session review =
     (if isOwner session review then [HandleDeleteReview]
      else [HandleReportReview NSFW, HandleReportReview TOSViolation])"
  by (auto simp: offered_def menu_dropdown_def isOwner_def)

text \<open>
  Claim C1. For every review and every session state, the actions menu offers delete
  exactly when the session carries a user whose id is the id of the review's author, and
  offers each of the two report reasons exactly when there is no session or the actor is
  not that author. So an owner is never offered a report, and nobody else is offered
  delete.
\<close>

theorem menu_capabilities:
  "(HandleDeleteReview \<in> set (offered session review)
      \<longleftrightarrow> (\<exists>s u. session = Some s \<and> session_user s = Some u
                  \<and> su_id u = ru_id (review_user review)))
   \<and> (HandleReportReview NSFW \<in> set (offered session review)
      \<longleftrightarrow> (session = None
           \<or> \<not> (\<exists>s u. session = Some s \<and> session_user s = Some u
                  \<and> su_id u = ru_id (review_user review))))
   \<and> (HandleReportReview TOSViolation \<in> set (offered session review)
      \<longleftrightarrow> (session = None
           \<or> \<not> (\<exists>s u. session = Some s \<and> session_user s = Some u
                  \<and> su_id u = ru_id (review_user review))))
   \<and> \<not> (HandleDeleteReview \<in> set (offered session review)
        \<and> HandleReportReview reason \<in> set (offered session review))"
proof -
  have own: "isOwner session review \<Longrightarrow> session \<noteq> None"
    by (auto simp: isOwner_def split: option.splits)
  show ?thesis
    unfolding isOwner_iff [symmetric] offered_cases using own by auto
qed

theorem menu_capabilities_witness:
  "offered None example_review = [HandleReportReview NSFW, HandleReportReview TOSViolation]
   \<and> HandleDeleteReview \<in> set (offered owner_session example_review)
   \<and> HandleReportReview NSFW \<notin> set (offered owner_session example_review)
   \<and> HandleReportReview NSFW \<in> set (offered other_session example_review)
   \<and> HandleDeleteReview \<notin> set (offered other_session example_review)"
  using menu_capabilities [of owner_session example_review NSFW]
        menu_capabilities [of other_session example_review NSFW]
  by (simp add: owner_session_def other_session_def example_review_def offered_cases isOwner_def)

subsection \<open>Running traces\<close>

lemma run_append: "run (xs @ ys) w = run ys (run xs w)"
  by (induction xs arbitrary: w) auto

lemma run_snoc_hide:
  "Some k \<notin> set (map note_key (notifications (run (es @ [HideNotification k]) w)))"
  by (auto simp: run_append)

lemmas report_flow_defs =
  handleReportReview_def mutate_def mutate_start_def mutate_settle_def reportMutation_def

lemmas delete_flow_defs =
  click_confirm_def click_delete_def click_cancel_def handleDeleteReview_def
  mutate_start_def deleteMutation_def

subsection \<open>Delete\<close>

text \<open>
  Claim C2. A delete invocation sends the request. If it succeeds, the review collection
  is invalidated once, for the model id of the review, and all modals are closed, the
  confirmation gate with them. If it fails, nothing is invalidated, the open modals stay
  as they are, and the error notification titled "Could not delete review" with the
  message of the error is shown.
\<close>

theorem delete_outcomes:
  "run_callback review (DeleteMutate (review_id review)) Succeeded =
     [DeleteRequest (review_id review), Invalidate (review_modelId review), CloseAllModals]
   \<and> run_callback review (DeleteMutate (review_id review)) (Failed message) =
     [DeleteRequest (review_id review),
      ShowErrorNotification
        \<lparr>e_error = message, e_title = ''Could not delete review'', e_reason = None\<rparr>]
   \<and> modals (settle_delete review Succeeded w) = []
   \<and> stale (settle_delete review Succeeded w) = stale w @ [review_modelId review]
   \<and> modals (settle_delete review (Failed message) w) = modals w
   \<and> stale (settle_delete review (Failed message) w) = stale w
   \<and> notifications (settle_delete review (Failed message) w) =
       notifications w @
       [ErrorNote \<lparr>e_error = message, e_title = ''Could not delete review'', e_reason = None\<rparr>]"
  by (simp add: mutate_def mutate_start_def mutate_settle_def deleteMutation_def settle_delete_def)

theorem delete_outcomes_witness:
  "modals (settle_delete example_review Succeeded
            (click_confirm example_review (click_delete example_review idle_world))) = []
   \<and> stale (settle_delete example_review Succeeded
            (click_confirm example_review (click_delete example_review idle_world))) = [3]
   \<and> length (modals (settle_delete example_review (Failed ''boom'')
            (click_confirm example_review (click_delete example_review idle_world)))) = 1
   \<and> stale (settle_delete example_review (Failed ''boom'')
            (click_confirm example_review (click_delete example_review idle_world))) = []"
  using delete_outcomes [of example_review "''boom''"
          "click_confirm example_review (click_delete example_review idle_world)"]
  by (simp add: example_review_def idle_world_def delete_flow_defs)

lemma gate_cancel_invokes_nothing:
  "filter is_request
     (log (click_cancel example_review (click_delete example_review idle_world))) = []
   \<and> modals (click_cancel example_review (click_delete example_review idle_world)) = []"
  by (simp add: example_review_def idle_world_def delete_flow_defs)

text \<open>
  Whatever was open before: once the gate is opened and confirmed, the mutation is in
  flight, and the busy flag of the gate is the value \<open>isLoading\<close> had before the click.
\<close>

lemma gate_busy_flag_is_snapshot:
  "delete_isLoading (click_confirm review (click_delete review w))
   \<and> map confirm_busy (modals (click_confirm review (click_delete review w))) =
       map confirm_busy (modals w) @ [delete_isLoading w]"
  by (simp add: delete_flow_defs)

text \<open>
  Claim C7. Confirming calls the delete action once and leaves the modal open, and
  cancelling calls nothing; the claim also says that the confirm control is marked busy
  while the delete mutation is in flight. The gate receives \<open>loading\<close> as the value
  \<open>deleteMutation.isLoading\<close> had when the menu item was clicked, and nothing updates the
  open modal afterwards. For the example review, opened from the idle interface and
  confirmed: the mutation is in flight, the one open modal is the gate, its confirm control
  is not busy, and the delete request was sent once.
\<close>

theorem confirm_control_not_busy_in_flight:
  "delete_isLoading (click_confirm example_review (click_delete example_review idle_world))
   \<and> map confirm_busy
        (modals (click_confirm example_review (click_delete example_review idle_world)))
       = [False]
   \<and> filter is_request
        (log (click_confirm example_review (click_delete example_review idle_world)))
       = [DeleteRequest 7]"
  by (simp add: example_review_def idle_world_def delete_flow_defs)

text \<open>
  Claim C10. A successful delete calls \<open>closeAllModals\<close>, which empties the modal
  manager: whatever modals were open, none is open afterwards, in particular not a modal
  that some other part of the application had opened.
\<close>

theorem successful_delete_closes_every_modal:
  "CloseAllModals \<in> set (mutate_settle (deleteMutation review) Succeeded)
   \<and> modals (settle_delete review Succeeded w) = []
   \<and> OtherModal name \<notin>
       set (modals (settle_delete review Succeeded (w\<lparr>modals := OtherModal name # modals w\<rparr>)))"
  by (simp add: mutate_settle_def deleteMutation_def settle_delete_def)

subsection \<open>Report\<close>

text \<open>
  Claim C3. A report attempt without a session sends no request, whatever the remote
  service would have answered: its only call is the navigation to the login url that
  carries the current path as \<open>returnUrl\<close>.
\<close>

theorem report_without_session:
  "handleReportReview None asPath review reason out =
     [RouterPush (''/login?returnUrl='' @ asPath)]
   \<and> filter is_request (handleReportReview None asPath review reason out) = []"
  by (simp add: handleReportReview_def)

text \<open>
  Claim C4. A report invocation with a session, whatever its outcome, first shows the
  loading notification under the key "sending-review-report", then sends the request, then
  makes exactly one terminal notification call (the success one exactly when the request
  succeeded), and last hides the key; between showing and hiding, nothing else touches the
  key. Afterwards no notification is visible under the key, whatever was visible before.
\<close>

theorem report_lifecycle_order:
  "\<exists>p terminal.
     handleReportReview (Some s) asPath review reason out =
       ShowNotification p # ReportRequest (review_id review) reason # terminal
         @ [HideNotification ''sending-review-report'']
     \<and> n_id p = ''sending-review-report'' \<and> n_loading p
     \<and> length (filter is_terminal_note terminal) = 1
     \<and> filter (touches_key ''sending-review-report'') terminal = []
     \<and> (is_success_note (last (filter is_terminal_note terminal)) \<longleftrightarrow> out = Succeeded)
     \<and> Some ''sending-review-report'' \<notin>
         set (map note_key
               (notifications (run (handleReportReview (Some s) asPath review reason out) w)))"
proof -
  define p where "p = \<lparr>n_id = ''sending-review-report'', n_loading = True,
    n_disallowClose = True, n_autoClose = None, n_message = ''Sending report...''\<rparr>"
  define terminal where "terminal =
    (case out of
       Succeeded \<Rightarrow> onSuccess (reportMutation review)
     | Failed message \<Rightarrow> onError (reportMutation review) message)"
  have trace: "handleReportReview (Some s) asPath review reason out =
       ShowNotification p # ReportRequest (review_id review) reason # terminal
         @ [HideNotification ''sending-review-report'']"
    by (simp add: report_flow_defs p_def terminal_def split: outcome.splits)
  have hidden: "Some ''sending-review-report'' \<notin>
         set (map note_key
               (notifications (run (handleReportReview (Some s) asPath review reason out) w)))"
    unfolding trace
    using run_snoc_hide [of "''sending-review-report''"
            "ShowNotification p # ReportRequest (review_id review) reason # terminal" w]
    by simp
  have one: "length (filter is_terminal_note terminal) = 1"
    by (cases out) (simp_all add: terminal_def reportMutation_def)
  have quiet: "filter (touches_key ''sending-review-report'') terminal = []"
    by (cases out) (simp_all add: terminal_def reportMutation_def)
  have which: "is_success_note (last (filter is_terminal_note terminal)) \<longleftrightarrow> out = Succeeded"
    by (cases out) (simp_all add: terminal_def reportMutation_def)
  have key: "n_id p = ''sending-review-report'' \<and> n_loading p"
    by (simp add: p_def)
  from trace hidden one quiet which key show ?thesis by blast
qed

text \<open>
  Claim C5. A report invocation that succeeds invalidates the review collection of the
  review's model and then calls the success notification, titled "Review reported" with
  the text "Your request has been received"; this is another notification than the
  loading one, which is hidden at the end while the success notification stays.
\<close>

theorem report_success:
  "handleReportReview (Some s) asPath review reason Succeeded =
     [ShowNotification
        \<lparr>n_id = ''sending-review-report'', n_loading = True, n_disallowClose = True,
         n_autoClose = None, n_message = ''Sending report...''\<rparr>,
      ReportRequest (review_id review) reason,
      Invalidate (review_modelId review),
      ShowSuccessNotification
        \<lparr>s_title = ''Review reported'', s_message = ''Your request has been received''\<rparr>,
      HideNotification ''sending-review-report'']
   \<and> stale (run (handleReportReview (Some s) asPath review reason Succeeded) w) =
       stale w @ [review_modelId review]
   \<and> notifications (run (handleReportReview (Some s) asPath review reason Succeeded) w) =
       filter (\<lambda>n. note_key n \<noteq> Some ''sending-review-report'') (notifications w) @
       [SuccessNote
          \<lparr>s_title = ''Review reported'', s_message = ''Your request has been received''\<rparr>]"
  by (simp add: report_flow_defs)

text \<open>
  Claim C6. A report invocation that fails calls the error notification with the fixed
  title "Unable to send report", the fixed hint "An unexpected error occurred, please try
  again" in a field of its own, and the message of the error in the error field. Nothing
  is invalidated. The message decides nothing: with another message the calls are the
  same but for the error field.
\<close>

theorem report_failure:
  "handleReportReview (Some s) asPath review reason (Failed message) =
     [ShowNotification
        \<lparr>n_id = ''sending-review-report'', n_loading = True, n_disallowClose = True,
         n_autoClose = None, n_message = ''Sending report...''\<rparr>,
      ReportRequest (review_id review) reason,
      ShowErrorNotification
        \<lparr>e_error = message, e_title = ''Unable to send report'',
         e_reason = Some ''An unexpected error occurred, please try again''\<rparr>,
      HideNotification ''sending-review-report'']
   \<and> filter is_invalidate (handleReportReview (Some s) asPath review reason (Failed message)) = []
   \<and> stale (run (handleReportReview (Some s) asPath review reason (Failed message)) w) = stale w
   \<and> map (with_error_message message')
         (handleReportReview (Some s) asPath review reason (Failed message)) =
       handleReportReview (Some s) asPath review reason (Failed message')"
  by (simp add: report_flow_defs)

subsection \<open>Rendering\<close>




text \<open>
  Claim C9. For an empty list of reviews the body is the placeholder, with the message
  "There are no reviews for this model yet.", and not the grid; for a non-empty list the
  body is the grid over these reviews, and not the placeholder.
\<close>

theorem reviews_grid_or_placeholder:
  "(items = [] \<longrightarrow>
      body (ModelReviews items loading) =
        Placeholder ''There are no reviews for this model yet.''
          ''Be the first to let the people know about this model by leaving your review.'')
   \<and> (items \<noteq> [] \<longrightarrow> body (ModelReviews items loading) = MasonryGrid items)"
  by (simp add: ModelReviews_def)

theorem reviews_grid_or_placeholder_witness:
  "body (ModelReviews [] False) =
     Placeholder ''There are no reviews for this model yet.''
       ''Be the first to let the people know about this model by leaving your review.''
   \<and> [example_review] \<noteq> []
   \<and> body (ModelReviews [example_review] False) = MasonryGrid [example_review]"
  using reviews_grid_or_placeholder [of "[]" False]
        reviews_grid_or_placeholder [of "[example_review]" False]
  by simp

end
